theory Spec2Isabelle
  imports Complex_Main "HOL-Library.AList" "HOL-Library.Sublist"
begin

section \<open>push\_data.py: loading a CSV file into a MongoDB collection\<close>

text \<open>
  The script reads a CSV file with pandas, turns every row into a document and inserts
  the documents into a MongoDB collection with pymongo. Everything the script does
  beyond computing values (reading the environment, calling the driver, logging,
  printing) is made explicit here: an action takes the world and returns either the
  exception it raised or its value, together with the world it leaves behind.
\<close>

subsection \<open>Values, documents and data frames\<close>

text \<open>
  A cell of a data frame or a value of a document. \<open>NaN\<close> is the marker pandas puts
  where a CSV cell is missing (\<open>np.nan\<close>); \<open>PyNone\<close> is Python's \<open>None\<close>, stored by
  MongoDB as null. \<open>PyNum\<close> is any number other than the marker.
\<close>

datatype cell = PyNone | NaN | PyNum rat | PyBool bool | PyStr string

text \<open>A Python \<open>dict\<close> with string keys: the keys in insertion order, each once.\<close>

type_synonym document = "(string \<times> cell) list"

record DataFrame =
  columns :: "string list"
  rows :: "cell list list"

subsection \<open>Exceptions\<close>

text \<open>
  One entry of \<open>BulkWriteError.details["writeErrors"]\<close> (the position of the rejected
  document in the submitted list and the server's error code, 11000 for a duplicate
  key), and the \<open>details\<close> dictionary itself.
\<close>

record write_error =
  index :: nat
  code :: int

record bulk_details =
  writeErrors :: "write_error list"
  nInserted :: nat

text \<open>
  The exceptions (subclasses of \<open>Exception\<close>) that travel through the script. The
  string of \<open>ServerSelectionTimeoutError\<close>, \<open>TypeError\<close> and \<open>OtherException\<close> is
  \<open>str(e)\<close>; \<open>OtherException\<close> stands for every class that no \<open>except\<close> clause of the
  script names (\<open>FileNotFoundError\<close>, pandas' \<open>ParserError\<close>, pymongo's
  \<open>OperationFailure\<close>, \<open>ConfigurationError\<close>, ...), with the name of its class first.

  Modelled from the spec: the class \<open>NetworkSecurityException\<close> of
  \<open>networksecurity.exception.exception\<close> is not among the sources. The spec says that
  every failure is wrapped into one exception kind carrying the original cause; here it
  carries its first constructor argument, which the script gives either as a message
  (\<open>Text\<close>) or as the exception it caught (\<open>Caught\<close>). The second argument (\<open>sys\<close>,
  for the source location) is left out.
\<close>

datatype py_exn =
    BulkWriteError bulk_details
  | ServerSelectionTimeoutError string
  | TypeError string
  | OtherException string string
  | NetworkSecurityException error_message
and error_message =
    Text string
  | Caught py_exn

subsection \<open>The world outside the script\<close>

text \<open>The keyword arguments \<open>get_mongo_client\<close> passes to \<open>MongoClient\<close>.\<close>

record client_args =
  uri :: string
  tls :: bool
  tlsCAFile :: string
  serverSelectionTimeoutMS :: int

record InsertManyResult =
  inserted_ids :: "nat list"

text \<open>
  What the driver was asked to do, in order: the three calls the script makes, and
  \<open>Insert_sent\<close> for the insert command \<open>insert_many\<close> sends to the server once it has
  accepted its arguments.
\<close>

datatype call =
    MongoClient_call client_args
  | Command_call string string
  | Insert_many_call string string "document list" bool
  | Insert_sent string string "document list"

text \<open>
  What \<open>print\<close> wrote: a line of text, or \<open>str(e)\<close> of an exception (for the script's
  own exception that text is made by its class, which is not among the sources).
\<close>

datatype printed = Line string | Str_of py_exn

text \<open>
  The world: the process environment (after \<open>load_dotenv()\<close>), the location of
  certifi's CA bundle, what \<open>pd.read_csv\<close> makes of each path, the MongoDB deployment
  as the driver shows it (which calls fail and how, which database and collection names
  the driver refuses, which documents the store rejects given what the collection
  already holds, and what each collection holds), and the records of what happened:
  driver calls, logged bulk-write details, printed lines.
\<close>

record world =
  environ :: "string \<Rightarrow> string option"
  certifi_where :: string
  read_csv :: "string \<Rightarrow> py_exn + DataFrame"
  MongoClient_raises :: "client_args \<Rightarrow> py_exn option"
  command_raises :: "string \<Rightarrow> py_exn option"
  database_raises :: "string \<Rightarrow> py_exn option"
  collection_raises :: "string \<Rightarrow> string \<Rightarrow> py_exn option"
  insert_raises :: "py_exn option"
  rejects :: "document list \<Rightarrow> document \<Rightarrow> int option"
  collections :: "string \<times> string \<Rightarrow> document list"
  calls :: "call list"
  error_log :: "bulk_details list"
  stdout :: "printed list"

type_synonym 'a action = "world \<Rightarrow> (py_exn + 'a) \<times> world"

definition return_action :: "'a \<Rightarrow> 'a action" where
  "return_action x w = (Inr x, w)"

definition raise_action :: "py_exn \<Rightarrow> 'a action" where
  "raise_action e w = (Inl e, w)"

definition bind_action :: "'a action \<Rightarrow> ('a \<Rightarrow> 'b action) \<Rightarrow> 'b action" where
  "bind_action m f w = (case m w of (Inl e, w') \<Rightarrow> (Inl e, w') | (Inr x, w') \<Rightarrow> f x w')"

text \<open>\<open>try: m  except Exception as e: h e\<close>.\<close>

definition try_except :: "'a action \<Rightarrow> (py_exn \<Rightarrow> 'a action) \<Rightarrow> 'a action" where
  "try_except m h w = (case m w of (Inl e, w') \<Rightarrow> h e w' | (Inr x, w') \<Rightarrow> (Inr x, w'))"

subsection \<open>Library calls\<close>

text \<open>
  \<open>str.isspace\<close> and \<open>str.strip()\<close>, a character being a code point below 256: the
  whitespace there is U+0009 to U+000D, U+001C to U+0020, U+0085 and U+00A0.
\<close>

definition isspace :: "char \<Rightarrow> bool" where
  "isspace c =
     (let n = (of_char c :: nat)
      in (9 \<le> n \<and> n \<le> 13) \<or> (28 \<le> n \<and> n \<le> 32) \<or> n = 133 \<or> n = 160)"

definition strip :: "string \<Rightarrow> string" where
  "strip s = rev (dropWhile isspace (rev (dropWhile isspace s)))"

text \<open>\<open>str(n)\<close> for an integer: its decimal digits.\<close>

fun str_nat :: "nat \<Rightarrow> string" where
  "str_nat n =
     (if n < 10 then [char_of (48 + n)]
      else str_nat (n div 10) @ [char_of (48 + n mod 10)])"

declare str_nat.simps [simp del]

definition str_int :: "int \<Rightarrow> string" where
  "str_int i = (if i < 0 then CHR ''-'' # str_nat (nat (- i)) else str_nat (nat i))"

definition os_getenv :: "string \<Rightarrow> string option action" where
  "os_getenv name w = (Inr (environ w name), w)"

definition py_print :: "string \<Rightarrow> unit action" where
  "py_print s w = (Inr (), w\<lparr>stdout := stdout w @ [Line s]\<rparr>)"

definition py_print_exn :: "py_exn \<Rightarrow> unit action" where
  "py_print_exn e w = (Inr (), w\<lparr>stdout := stdout w @ [Str_of e]\<rparr>)"

text \<open>
  Modelled from the spec: the logger of \<open>networksecurity.logging.logger\<close> is not among
  the sources. The spec says that the failing rows of a bulk write are logged, not
  returned; \<open>logging.error\<close> of the script's one message, "Bulk write error: " and the
  details, appends the details to the log.
\<close>

definition logging_error :: "bulk_details \<Rightarrow> unit action" where
  "logging_error details w = (Inr (), w\<lparr>error_log := error_log w @ [details]\<rparr>)"

text \<open>
  pandas. \<open>pd.read_csv(path)\<close> is the world's answer for the path: the exception it
  raises or the frame it parses, a missing cell being \<open>NaN\<close> in the frame.
  \<open>df.replace({to_replace: value})\<close> replaces every cell equal to \<open>to_replace\<close>.
  \<open>df.to_dict(orient="records")\<close> builds one \<open>dict\<close> per row from the pairs of column
  name and cell: \<open>py_dict\<close> is Python's \<open>dict(pairs)\<close>, where a key that comes again
  keeps its place and takes the later value.
\<close>

definition pd_read_csv :: "string \<Rightarrow> DataFrame action" where
  "pd_read_csv file_path w = (read_csv w file_path, w)"

definition replace_cell :: "cell \<Rightarrow> cell \<Rightarrow> cell \<Rightarrow> cell" where
  "replace_cell to_replace v c = (if c = to_replace then v else c)"

definition DataFrame_replace :: "cell \<Rightarrow> cell \<Rightarrow> DataFrame \<Rightarrow> DataFrame" where
  "DataFrame_replace to_replace v df =
     df\<lparr>rows := map (map (replace_cell to_replace v)) (rows df)\<rparr>"

definition py_dict :: "(string \<times> cell) list \<Rightarrow> document" where
  "py_dict pairs = foldl (\<lambda>d (k, v). AList.update k v d) [] pairs"

definition to_dict_records :: "DataFrame \<Rightarrow> document list" where
  "to_dict_records df = map (\<lambda>row. py_dict (zip (columns df) row)) (rows df)"

text \<open>
  pymongo. \<open>MongoClient(uri, **kwargs)\<close> returns a client (here: the arguments it was
  made with) unless the world makes it raise. \<open>client.admin.command(name)\<close> runs a
  command against the admin database. \<open>client[database]\<close> and \<open>db[collection]\<close> are
  local: they send nothing, and raise (\<open>InvalidName\<close>) for a name the driver refuses.
\<close>

type_synonym Database = "client_args \<times> string"

type_synonym Collection = "client_args \<times> string \<times> string"

definition MongoClient :: "client_args \<Rightarrow> client_args action" where
  "MongoClient args w =
     (let w' = w\<lparr>calls := calls w @ [MongoClient_call args]\<rparr>
      in case MongoClient_raises w args of
           Some e \<Rightarrow> (Inl e, w')
         | None \<Rightarrow> (Inr args, w'))"

definition admin_command :: "client_args \<Rightarrow> string \<Rightarrow> unit action" where
  "admin_command client name w =
     (let w' = w\<lparr>calls := calls w @ [Command_call ''admin'' name]\<rparr>
      in case command_raises w name of
           Some e \<Rightarrow> (Inl e, w')
         | None \<Rightarrow> (Inr (), w'))"

definition client_getitem :: "client_args \<Rightarrow> string \<Rightarrow> Database action" where
  "client_getitem client database w =
     (case database_raises w database of
        Some e \<Rightarrow> (Inl e, w)
      | None \<Rightarrow> (Inr (client, database), w))"

definition database_getitem :: "Database \<Rightarrow> string \<Rightarrow> Collection action" where
  "database_getitem db collection w =
     (case collection_raises w (snd db) collection of
        Some e \<Rightarrow> (Inl e, w)
      | None \<Rightarrow> (Inr (fst db, snd db, collection), w))"

text \<open>
  The server's side of an insert command: the documents are tried in order against
  what the collection holds by then, \<open>i\<close> being the position of the next one. A
  rejected document ends an ordered write and is skipped by an unordered one. The
  result is the collection afterwards and the write errors.
\<close>

fun bulk_insert ::
  "(document list \<Rightarrow> document \<Rightarrow> int option) \<Rightarrow> bool \<Rightarrow> nat \<Rightarrow> document list \<Rightarrow>
   document list \<Rightarrow> document list \<times> write_error list" where
  "bulk_insert rej ordered i stored [] = (stored, [])"
| "bulk_insert rej ordered i stored (d # ds) =
     (case rej stored d of
        None \<Rightarrow> bulk_insert rej ordered (Suc i) (stored @ [d]) ds
      | Some c \<Rightarrow>
          if ordered then (stored, [\<lparr>index = i, code = c\<rparr>])
          else (case bulk_insert rej ordered (Suc i) stored ds of
                  (stored', errs) \<Rightarrow> (stored', \<lparr>index = i, code = c\<rparr> # errs)))"

text \<open>
  \<open>col.insert_many(documents, ordered=ordered)\<close>, as pymongo
  documents it: an empty list is refused with \<open>TypeError\<close> before anything is sent;
  the call may fail as a whole (\<open>insert_raises\<close>); otherwise the insert command is
  sent, and the call raises \<open>BulkWriteError\<close> when the server reports write errors and
  returns one id per submitted document when it reports none. The ids are the
  documents' positions here.
\<close>

definition insert_many ::
  "Collection \<Rightarrow> document list \<Rightarrow> bool \<Rightarrow> InsertManyResult action" where
  "insert_many col documents ordered w =
     (let database = fst (snd col); collection = snd (snd col);
          w1 = w\<lparr>calls := calls w @ [Insert_many_call database collection documents ordered]\<rparr>
      in if documents = [] then (Inl (TypeError ''documents must be a non-empty list''), w1)
         else case insert_raises w1 of
           Some e \<Rightarrow> (Inl e, w1)
         | None \<Rightarrow>
             (case bulk_insert (rejects w1) ordered 0 (collections w1 (database, collection))
                     documents of
                (stored, errs) \<Rightarrow>
                  (let w2 = w1\<lparr>calls := calls w1 @ [Insert_sent database collection documents],
                                collections := (collections w1)((database, collection) := stored)\<rparr>
                   in if errs = [] then (Inr \<lparr>inserted_ids = [0..<length documents]\<rparr>, w2)
                      else (Inl (BulkWriteError
                                   \<lparr>writeErrors = errs,
                                    nInserted = length stored -
                                      length (collections w1 (database, collection))\<rparr>),
                            w2))))"

subsection \<open>The script\<close>

definition require_env :: "string \<Rightarrow> string action" where
  "require_env name =
     bind_action (os_getenv name) (\<lambda>val.
       case val of
         None \<Rightarrow>
           raise_action (NetworkSecurityException
             (Text (''Missing required environment variable: '' @ name)))
       | Some v \<Rightarrow>
           if v = [] \<or> strip v = [] then
             raise_action (NetworkSecurityException
               (Text (''Missing required environment variable: '' @ name)))
           else return_action v)"

definition get_mongo_client :: "string \<Rightarrow> client_args action" where
  "get_mongo_client u w =
     MongoClient \<lparr>uri = u, tls = True, tlsCAFile = certifi_where w,
                  serverSelectionTimeoutMS = 15000\<rparr> w"

record NetworkDataExtract =
  mongo_uri :: string

definition NetworkDataExtract_init :: "NetworkDataExtract action" where
  "NetworkDataExtract_init =
     try_except
       (bind_action (require_env ''MONGO_DB_URL'') (\<lambda>v.
        return_action \<lparr>mongo_uri = v\<rparr>))
       (\<lambda>e. raise_action (NetworkSecurityException (Caught e)))"

definition csv_to_json_convertor :: "NetworkDataExtract \<Rightarrow> string \<Rightarrow> document list action" where
  "csv_to_json_convertor self file_path =
     try_except
       (bind_action (pd_read_csv file_path) (\<lambda>df.
        bind_action (return_action (DataFrame_replace NaN PyNone df)) (\<lambda>df.
        bind_action (return_action (to_dict_records df)) (\<lambda>records.
        return_action records))))
       (\<lambda>e. raise_action (NetworkSecurityException (Caught e)))"

text \<open>The three \<open>except\<close> clauses of \<open>insert_data_mongodb\<close>, the first that matches.\<close>

fun insert_data_mongodb_except :: "py_exn \<Rightarrow> int action" where
  "insert_data_mongodb_except (BulkWriteError details) =
     bind_action (logging_error details) (\<lambda>_.
       let inserted = int (length (writeErrors details))
       in raise_action (NetworkSecurityException (Caught (BulkWriteError details))))"
| "insert_data_mongodb_except (ServerSelectionTimeoutError e) =
     raise_action (NetworkSecurityException (Text
       (''Cannot connect to MongoDB: '' @ e @ ''. '' @
        ''Check: (1) IP allowlist in Atlas, (2) URI uses mongodb+srv, '' @
        ''(3) network/proxy SSL inspection, (4) system certs.'')))"
| "insert_data_mongodb_except e =
     raise_action (NetworkSecurityException (Caught e))"

definition insert_data_mongodb ::
  "NetworkDataExtract \<Rightarrow> document list \<Rightarrow> string \<Rightarrow> string \<Rightarrow> int action" where
  "insert_data_mongodb self records database collection =
     try_except
       (bind_action (get_mongo_client (mongo_uri self)) (\<lambda>client.
        bind_action (admin_command client ''ping'') (\<lambda>_.
        bind_action (client_getitem client database) (\<lambda>db.
        bind_action (database_getitem db collection) (\<lambda>col.
        bind_action (insert_many col records False) (\<lambda>result.
        return_action (int (length (inserted_ids result)))))))))
       insert_data_mongodb_except"

definition FILE_PATH :: string where
  "FILE_PATH = ''Network_Data/phisingData.csv''"

definition DATABASE :: string where
  "DATABASE = ''CHARUKAGUN''"

definition COLLECTION :: string where
  "COLLECTION = ''NetworkData''"

definition main :: "unit action" where
  "main =
     try_except
       (bind_action NetworkDataExtract_init (\<lambda>extractor.
        bind_action (csv_to_json_convertor extractor FILE_PATH) (\<lambda>records.
        bind_action (py_print (''Loaded '' @ str_int (int (length records)) @
                               '' records from CSV'')) (\<lambda>_.
        bind_action (insert_data_mongodb extractor records DATABASE COLLECTION) (\<lambda>n.
        py_print (''Inserted '' @ str_int n @ '' records''))))))
       (\<lambda>e. bind_action (py_print_exn e) (\<lambda>_. raise_action e))"

subsection \<open>Notions the properties use\<close>

text \<open>
  The outcome of \<open>insert_data_mongodb\<close> is the connectivity failure when it is the
  script's exception with the diagnostic of the \<open>ServerSelectionTimeoutError\<close> clause:
  the message opens with "Cannot connect to MongoDB: " and closes with the remediation
  hint.
\<close>

fun connectivity_failure :: "py_exn + int \<Rightarrow> bool" where
  "connectivity_failure (Inl (NetworkSecurityException (Text m))) =
     (prefix ''Cannot connect to MongoDB: '' m \<and>
      suffix (''. Check: (1) IP allowlist in Atlas, (2) URI uses mongodb+srv, '' @
              ''(3) network/proxy SSL inspection, (4) system certs.'') m)"
| "connectivity_failure _ = False"

text \<open>
  What pandas guarantees of a frame it parsed: the column names differ from one another
  (\<open>read_csv\<close> renames a repeated header) and every row has one cell per column.
\<close>

definition well_formed :: "DataFrame \<Rightarrow> bool" where
  "well_formed df =
     (distinct (columns df) \<and> list_all (\<lambda>row. length row = length (columns df)) (rows df))"

text \<open>The arguments \<open>get_mongo_client\<close> passes to \<open>MongoClient\<close> for the extractor's URI.\<close>

definition mongo_args :: "NetworkDataExtract \<Rightarrow> world \<Rightarrow> client_args" where
  "mongo_args self w =
     \<lparr>uri = mongo_uri self, tls = True, tlsCAFile = certifi_where w,
      serverSelectionTimeoutMS = 15000\<rparr>"

text \<open>
  The store accepts all the submitted documents: an unordered insert of them into the
  collection, as the world holds it, reports no write error.
\<close>

definition accepts_all :: "world \<Rightarrow> string \<Rightarrow> string \<Rightarrow> document list \<Rightarrow> bool" where
  "accepts_all w database collection documents =
     (snd (bulk_insert (rejects w) False 0 (collections w (database, collection)) documents) = [])"

subsection \<open>A store double\<close>

text \<open>
  A store with a unique index on one field: a document is rejected as a duplicate
  (code 11000) when a stored document has the same value under the key.
\<close>

definition unique_index :: "string \<Rightarrow> document list \<Rightarrow> document \<Rightarrow> int option" where
  "unique_index k stored d =
     (if map_of d k \<in> set (map (\<lambda>s. map_of s k) stored) then Some 11000 else None)"

text \<open>A frame of three rows with two missing cells.\<close>

definition frame3 :: DataFrame where
  "frame3 =
     \<lparr>columns = [''url'', ''Result''],
      rows = [[PyStr ''a.example'', PyNum 1], [PyStr ''b.example'', NaN], [NaN, PyNum 0]]\<rparr>"

text \<open>
  A world where everything works: the variable is set, the CSV file parses to
  \<open>frame3\<close>, the deployment answers, and the collections are empty.
\<close>

definition world_ok :: world where
  "world_ok =
     \<lparr>environ = (\<lambda>name. if name = ''MONGO_DB_URL'' then Some ''mongodb+srv://u:p@c0.example.net''
                          else None),
      certifi_where = ''/certifi/cacert.pem'',
      read_csv = (\<lambda>path. if path = FILE_PATH then Inr frame3
                          else Inl (OtherException ''FileNotFoundError'' path)),
      MongoClient_raises = (\<lambda>_. None),
      command_raises = (\<lambda>_. None),
      database_raises = (\<lambda>_. None),
      collection_raises = (\<lambda>_ _. None),
      insert_raises = None,
      rejects = unique_index ''url'',
      collections = (\<lambda>_. []),
      calls = [],
      error_log = [],
      stdout = []\<rparr>"

definition extractor_ok :: NetworkDataExtract where
  "extractor_ok = \<lparr>mongo_uri = ''mongodb+srv://u:p@c0.example.net''\<rparr>"

text \<open>
  The records the loader makes of \<open>frame3\<close>, and two records with the same URL.
\<close>

definition records3 :: "document list" where
  "records3 =
     [[(''url'', PyStr ''a.example''), (''Result'', PyNum 1)],
      [(''url'', PyStr ''b.example''), (''Result'', PyNone)],
      [(''url'', PyNone), (''Result'', PyNum 0)]]"

definition records_dup :: "document list" where
  "records_dup =
     [[(''url'', PyStr ''a.example''), (''Result'', PyNum 1)],
      [(''url'', PyStr ''a.example''), (''Result'', PyNum 0)]]"

text \<open>
  The deployment refuses the credentials (the ping raises pymongo's
  \<open>OperationFailure\<close>); the deployment cannot be reached within the timeout (the ping
  raises \<open>ServerSelectionTimeoutError\<close>); the variable is not set.
\<close>

definition world_bad_auth :: world where
  "world_bad_auth =
     world_ok\<lparr>command_raises :=
       (\<lambda>_. Some (OtherException ''OperationFailure'' ''bad auth : authentication failed''))\<rparr>"

definition world_unreachable :: world where
  "world_unreachable =
     world_ok\<lparr>command_raises :=
       (\<lambda>_. Some (ServerSelectionTimeoutError ''c0.example.net:27017: timed out''))\<rparr>"

definition world_no_env :: world where
  "world_no_env = world_ok\<lparr>environ := (\<lambda>_. None)\<rparr>"

section \<open>Auxiliary facts\<close>

subsection \<open>Construction and loading\<close>

lemmas action_defs = return_action_def raise_action_def bind_action_def try_except_def

lemma strip_empty_iff: "strip s = [] \<longleftrightarrow> list_all isspace s"
proof
  assume "strip s = []"
  then have all_rest: "\<forall>c\<in>set (dropWhile isspace s). isspace c"
    by (simp add: strip_def dropWhile_eq_Nil_conv)
  have "dropWhile isspace s = []"
  proof (rule ccontr)
    assume ne: "dropWhile isspace s \<noteq> []"
    then have "\<not> isspace (hd (dropWhile isspace s))" by (rule hd_dropWhile)
    moreover have "hd (dropWhile isspace s) \<in> set (dropWhile isspace s)" using ne by simp
    ultimately show False using all_rest by blast
  qed
  then show "list_all isspace s" by (simp add: dropWhile_eq_Nil_conv list_all_iff)
next
  assume "list_all isspace s"
  then have "dropWhile isspace s = []" by (simp add: dropWhile_eq_Nil_conv list_all_iff)
  then show "strip s = []" unfolding strip_def by (simp only: rev.simps dropWhile.simps)
qed

lemma require_env_result:
  "require_env name w =
     (case environ w name of
        None \<Rightarrow> (Inl (NetworkSecurityException
                        (Text (''Missing required environment variable: '' @ name))), w)
      | Some v \<Rightarrow>
          if list_all isspace v
          then (Inl (NetworkSecurityException
                        (Text (''Missing required environment variable: '' @ name))), w)
          else (Inr v, w))"
  by (auto simp: require_env_def os_getenv_def action_defs strip_empty_iff split: option.splits)

lemma update_fresh: "k \<notin> fst ` set al \<Longrightarrow> AList.update k v al = al @ [(k, v)]"
  by (induction al) auto

lemma foldl_update_distinct:
  "distinct (map fst ps) \<Longrightarrow> fst ` set ps \<inter> fst ` set acc = {} \<Longrightarrow>
   foldl (\<lambda>d (k, v). AList.update k v d) acc ps = acc @ ps"
proof (induction ps arbitrary: acc)
  case Nil
  then show ?case by simp
next
  case (Cons p ps)
  obtain k v where p: "p = (k, v)" by (cases p)
  from Cons.prems have fresh: "k \<notin> fst ` set acc" by (auto simp: p)
  from Cons.prems have "fst ` set ps \<inter> fst ` set (acc @ [(k, v)]) = {}"
    by (auto simp: p)
  with Cons.IH [of "acc @ [(k, v)]"] Cons.prems
  have "foldl (\<lambda>d (k, v). AList.update k v d) (acc @ [(k, v)]) ps = (acc @ [(k, v)]) @ ps"
    by simp
  then show ?case by (simp add: p update_fresh [OF fresh])
qed

lemma py_dict_distinct: "distinct (map fst ps) \<Longrightarrow> py_dict ps = ps"
  using foldl_update_distinct [of ps "[]"] by (simp add: py_dict_def)

lemma update_values: "snd ` set (AList.update k v al) \<subseteq> insert v (snd ` set al)"
  by (induction al) auto

lemma foldl_update_values:
  "snd ` set (foldl (\<lambda>d (k, v). AList.update k v d) acc ps) \<subseteq> snd ` set acc \<union> snd ` set ps"
proof (induction ps arbitrary: acc)
  case Nil
  then show ?case by simp
next
  case (Cons p ps)
  obtain k v where p: "p = (k, v)" by (cases p)
  have "snd ` set (foldl (\<lambda>d (k, v). AList.update k v d) (AList.update k v acc) ps)
          \<subseteq> snd ` set (AList.update k v acc) \<union> snd ` set ps"
    by (rule Cons.IH)
  also have "\<dots> \<subseteq> insert v (snd ` set acc) \<union> snd ` set ps"
    using update_values [of k v acc] by blast
  finally show ?case by (auto simp: p)
qed

lemma py_dict_values: "snd ` set (py_dict ps) \<subseteq> snd ` set ps"
  using foldl_update_values [of "[]" ps] by (simp add: py_dict_def)

lemma replace_cell_not_NaN: "replace_cell NaN PyNone c \<noteq> NaN"
  by (simp add: replace_cell_def)

lemma record_values_not_NaN:
  "v \<in> snd ` set (py_dict (zip cols (map (replace_cell NaN PyNone) row))) \<Longrightarrow> v \<noteq> NaN"
proof -
  assume "v \<in> snd ` set (py_dict (zip cols (map (replace_cell NaN PyNone) row)))"
  then have "v \<in> snd ` set (zip cols (map (replace_cell NaN PyNone) row))"
    using py_dict_values by blast
  then have "v \<in> set (map (replace_cell NaN PyNone) row)"
    by (auto dest: set_zip_rightD)
  then show ?thesis by (auto simp: replace_cell_not_NaN)
qed

lemma csv_to_json_convertor_result:
  "csv_to_json_convertor self file_path w =
     (case read_csv w file_path of
        Inl e \<Rightarrow> (Inl (NetworkSecurityException (Caught e)), w)
      | Inr df \<Rightarrow> (Inr (to_dict_records (DataFrame_replace NaN PyNone df)), w))"
  by (simp add: csv_to_json_convertor_def pd_read_csv_def action_defs split: sum.splits)

lemma to_dict_records_replace:
  "to_dict_records (DataFrame_replace NaN PyNone df) =
     map (\<lambda>row. py_dict (zip (columns df) (map (replace_cell NaN PyNone) row))) (rows df)"
  by (simp add: to_dict_records_def DataFrame_replace_def comp_def)

lemma well_formed_record:
  assumes "well_formed df" and "i < length (rows df)"
  shows "py_dict (zip (columns df) (map (replace_cell NaN PyNone) (rows df ! i))) =
           zip (columns df) (map (replace_cell NaN PyNone) (rows df ! i))"
proof -
  from assms have len: "length (rows df ! i) = length (columns df)"
    by (simp add: well_formed_def list_all_length)
  from assms have "distinct (columns df)" by (simp add: well_formed_def)
  with len have "distinct (map fst (zip (columns df) (map (replace_cell NaN PyNone) (rows df ! i))))"
    by simp
  then show ?thesis by (rule py_dict_distinct)
qed

lemma frame3_well_formed: "well_formed frame3"
  by (simp add: well_formed_def frame3_def)

lemma world_ok_read_csv: "read_csv world_ok FILE_PATH = Inr frame3"
  by (simp add: world_ok_def)

subsection \<open>Inserting\<close>

lemma insert_data_mongodb_steps:
  "insert_data_mongodb self records database collection w =
     (let args = mongo_args self w;
          w1 = w\<lparr>calls := calls w @ [MongoClient_call args]\<rparr>;
          w2 = w\<lparr>calls := calls w @ [MongoClient_call args, Command_call ''admin'' ''ping'']\<rparr>
      in case MongoClient_raises w args of
           Some e \<Rightarrow> insert_data_mongodb_except e w1
         | None \<Rightarrow>
        (case command_raises w ''ping'' of
           Some e \<Rightarrow> insert_data_mongodb_except e w2
         | None \<Rightarrow>
        (case database_raises w database of
           Some e \<Rightarrow> insert_data_mongodb_except e w2
         | None \<Rightarrow>
        (case collection_raises w database collection of
           Some e \<Rightarrow> insert_data_mongodb_except e w2
         | None \<Rightarrow>
        (let r = insert_many (args, database, collection) records False w2
         in case fst r of
              Inl e \<Rightarrow> insert_data_mongodb_except e (snd r)
            | Inr result \<Rightarrow> (Inr (int (length (inserted_ids result))), snd r))))))"
  by (simp add: insert_data_mongodb_def get_mongo_client_def mongo_args_def MongoClient_def
      admin_command_def client_getitem_def database_getitem_def action_defs Let_def
      split: option.splits sum.splits prod.splits)

lemma insert_data_mongodb_except_raises:
  "\<exists>m. fst (insert_data_mongodb_except e w) = Inl (NetworkSecurityException m)"
  by (cases e) (simp_all add: action_defs logging_error_def)

lemma insert_data_mongodb_except_not_Inr: "fst (insert_data_mongodb_except e w) \<noteq> Inr n"
  using insert_data_mongodb_except_raises [of e w] by auto

lemma insert_data_mongodb_except_frame:
  "collections (snd (insert_data_mongodb_except e w)) = collections w
   \<and> calls (snd (insert_data_mongodb_except e w)) = calls w
   \<and> stdout (snd (insert_data_mongodb_except e w)) = stdout w"
  by (cases e) (simp_all add: action_defs logging_error_def)

lemma insert_data_mongodb_except_other:
  "(\<forall>s. e \<noteq> ServerSelectionTimeoutError s) \<Longrightarrow>
   fst (insert_data_mongodb_except e w) = Inl (NetworkSecurityException (Caught e))"
  by (cases e) (simp_all add: action_defs logging_error_def)

lemma insert_many_returns:
  "fst (insert_many (client, database, collection) documents ordered w) = Inr result \<Longrightarrow>
   length (inserted_ids result) = length documents
   \<and> documents \<noteq> []
   \<and> snd (bulk_insert (rejects w) ordered 0 (collections w (database, collection)) documents) = []"
  by (auto simp: insert_many_def Let_def split: if_splits option.splits prod.splits)

lemma insert_many_keeps_stdout:
  "stdout (snd (insert_many col documents ordered w)) = stdout w"
  by (simp add: insert_many_def Let_def split: option.splits prod.splits)

lemma insert_many_stdout:
  "insert_many col documents ordered (w\<lparr>stdout := out\<rparr>) =
     (fst (insert_many col documents ordered w),
      (snd (insert_many col documents ordered w))\<lparr>stdout := out\<rparr>)"
  by (simp add: insert_many_def Let_def split: option.splits prod.splits)

lemma insert_data_mongodb_except_stdout:
  "insert_data_mongodb_except e (w\<lparr>stdout := out\<rparr>) =
     (fst (insert_data_mongodb_except e w), (snd (insert_data_mongodb_except e w))\<lparr>stdout := out\<rparr>)"
  by (cases e) (simp_all add: action_defs logging_error_def)

lemma insert_data_mongodb_returns:
  assumes "fst (insert_data_mongodb self records database collection w) = Inr n"
  shows "n = int (length records) \<and> records \<noteq> []
         \<and> accepts_all w database collection records"
proof -
  let ?w2 = "w\<lparr>calls := calls w @ [MongoClient_call (mongo_args self w),
                                     Command_call ''admin'' ''ping'']\<rparr>"
  from assms obtain result where
    ins: "fst (insert_many (mongo_args self w, database, collection) records False ?w2)
            = Inr result" and
    n: "n = int (length (inserted_ids result))"
    by (auto simp: insert_data_mongodb_steps Let_def insert_data_mongodb_except_not_Inr
        split: option.splits sum.splits)
  from insert_many_returns [OF ins] n show ?thesis
    by (simp add: accepts_all_def)
qed

lemma insert_data_mongodb_stdout:
  "insert_data_mongodb self records database collection (w\<lparr>stdout := out\<rparr>) =
     (fst (insert_data_mongodb self records database collection w),
      (snd (insert_data_mongodb self records database collection w))\<lparr>stdout := out\<rparr>)"
proof -
  let ?w1 = "w\<lparr>calls := calls w @ [MongoClient_call (mongo_args self w)]\<rparr>"
  let ?w2 = "w\<lparr>calls := calls w @ [MongoClient_call (mongo_args self w),
                                     Command_call ''admin'' ''ping'']\<rparr>"
  have args: "mongo_args self (w\<lparr>stdout := out\<rparr>) = mongo_args self w"
    by (simp add: mongo_args_def)
  have w1: "w\<lparr>stdout := out, calls := calls w @ [MongoClient_call (mongo_args self w)]\<rparr>
              = ?w1\<lparr>stdout := out\<rparr>"
    by simp
  have w2: "w\<lparr>stdout := out,
              calls := calls w @ [MongoClient_call (mongo_args self w),
                                  Command_call ''admin'' ''ping'']\<rparr>
            = ?w2\<lparr>stdout := out\<rparr>"
    by simp
  show ?thesis
    by (simp add: insert_data_mongodb_steps Let_def args w1 w2 insert_many_stdout
        insert_data_mongodb_except_stdout split: option.splits sum.splits)
qed

lemma insert_data_mongodb_keeps_stdout:
  "stdout (snd (insert_data_mongodb self records database collection w)) = stdout w"
  by (simp add: insert_data_mongodb_steps Let_def insert_data_mongodb_except_frame
      insert_many_keeps_stdout split: option.splits sum.splits)

lemma NetworkDataExtract_init_world: "snd (NetworkDataExtract_init w) = w"
  by (simp add: NetworkDataExtract_init_def require_env_result action_defs split: option.splits)

lemma csv_to_json_convertor_world: "snd (csv_to_json_convertor self file_path w) = w"
  by (simp add: csv_to_json_convertor_result split: sum.splits)

lemma timeout_is_connectivity_failure:
  "connectivity_failure (fst (insert_data_mongodb_except (ServerSelectionTimeoutError s) w))"
proof -
  let ?hint = "''. Check: (1) IP allowlist in Atlas, (2) URI uses mongodb+srv, '' @
               ''(3) network/proxy SSL inspection, (4) system certs.''"
  have msg: "fst (insert_data_mongodb_except (ServerSelectionTimeoutError s) w) =
               Inl (NetworkSecurityException (Text (''Cannot connect to MongoDB: '' @ s @ ?hint)))"
    by (simp add: raise_action_def)
  have "prefix ''Cannot connect to MongoDB: '' (''Cannot connect to MongoDB: '' @ s @ ?hint)"
    by (rule prefixI) (rule refl)
  moreover have "suffix ?hint (''Cannot connect to MongoDB: '' @ s @ ?hint)"
    by (rule suffixI [of _ "''Cannot connect to MongoDB: '' @ s"]) simp
  ultimately show ?thesis
    unfolding msg by (simp only: connectivity_failure.simps simp_thms)
qed

subsection \<open>Evaluations on the example worlds\<close>

lemma world_ok_init: "fst (NetworkDataExtract_init world_ok) = Inr extractor_ok"
  by code_simp

lemma world_ok_load: "fst (csv_to_json_convertor extractor_ok FILE_PATH world_ok) = Inr records3"
  by code_simp

lemma world_ok_driver:
  "MongoClient_raises world_ok (mongo_args extractor_ok world_ok) = None
   \<and> command_raises world_ok ''ping'' = None
   \<and> database_raises world_ok DATABASE = None
   \<and> collection_raises world_ok DATABASE COLLECTION = None
   \<and> insert_raises world_ok = None"
  by code_simp

lemma world_ok_insert3:
  "fst (insert_data_mongodb extractor_ok records3 DATABASE COLLECTION world_ok) = Inr 3"
  by code_simp

lemma world_ok_accepts3: "accepts_all world_ok DATABASE COLLECTION records3"
  by code_simp

lemma world_unreachable_client:
  "MongoClient_raises world_unreachable (mongo_args extractor_ok world_unreachable) = None"
  by code_simp

lemma world_unreachable_ping:
  "command_raises world_unreachable ''ping'' =
     Some (ServerSelectionTimeoutError ''c0.example.net:27017: timed out'')"
  by code_simp

lemma world_unreachable_init: "fst (NetworkDataExtract_init world_unreachable) = Inr extractor_ok"
  by code_simp

lemma world_unreachable_load:
  "fst (csv_to_json_convertor extractor_ok FILE_PATH world_unreachable) = Inr records3"
  by code_simp

lemma world_unreachable_insert:
  "fst (insert_data_mongodb extractor_ok records3 DATABASE COLLECTION world_unreachable) =
     Inl (NetworkSecurityException (Text
       (''Cannot connect to MongoDB: c0.example.net:27017: timed out'' @
        ''. Check: (1) IP allowlist in Atlas, (2) URI uses mongodb+srv, '' @
        ''(3) network/proxy SSL inspection, (4) system certs.'')))"
  by code_simp

lemma world_no_env_init:
  "fst (NetworkDataExtract_init world_no_env) =
     Inl (NetworkSecurityException (Caught (NetworkSecurityException
       (Text ''Missing required environment variable: MONGO_DB_URL''))))"
  by code_simp

lemma printed_lines:
  "stdout world_ok @
     [Line (''Loaded '' @ str_int (int (length records3)) @ '' records from CSV''),
      Line (''Inserted '' @ str_int 3 @ '' records'')] =
   [Line ''Loaded 3 records from CSV'', Line ''Inserted 3 records'']"
  "stdout world_unreachable @
     [Line (''Loaded '' @ str_int (int (length records3)) @ '' records from CSV''), Str_of e] =
   [Line ''Loaded 3 records from CSV'', Str_of e]"
  "stdout world_no_env @ [Str_of e] = [Str_of e]"
  by code_simp+

section \<open>The client's configuration\<close>

text \<open>
  C8. For every URI, \<open>get_mongo_client\<close> makes exactly one driver call, the
  construction of a client with that URI, TLS switched on, certifi's bundle as CA
  file and a server-selection timeout of 15000 ms; what it returns is that client.
\<close>

theorem get_mongo_client_configuration:
  "calls (snd (get_mongo_client u w)) =
     calls w @ [MongoClient_call \<lparr>uri = u, tls = True, tlsCAFile = certifi_where w,
                                  serverSelectionTimeoutMS = 15000\<rparr>]
   \<and> (\<forall>client. fst (get_mongo_client u w) = Inr client \<longrightarrow>
        uri client = u \<and> tls client \<and> tlsCAFile client = certifi_where w
        \<and> serverSelectionTimeoutMS client = 15000)"
  by (auto simp: get_mongo_client_def MongoClient_def Let_def split: option.splits)

theorem get_mongo_client_configuration_witness:
  "calls (snd (get_mongo_client ''mongodb://db.example:27017'' world_ok)) =
     [MongoClient_call \<lparr>uri = ''mongodb://db.example:27017'', tls = True,
                         tlsCAFile = ''/certifi/cacert.pem'',
                         serverSelectionTimeoutMS = 15000\<rparr>]
   \<and> fst (get_mongo_client ''mongodb://db.example:27017'' world_ok) =
       Inr \<lparr>uri = ''mongodb://db.example:27017'', tls = True,
            tlsCAFile = ''/certifi/cacert.pem'', serverSelectionTimeoutMS = 15000\<rparr>"
proof -
  have ret: "\<exists>client. fst (get_mongo_client ''mongodb://db.example:27017'' world_ok) = Inr client"
    by (simp add: get_mongo_client_def MongoClient_def world_ok_def)
  then obtain client where
    c: "fst (get_mongo_client ''mongodb://db.example:27017'' world_ok) = Inr client" ..
  from get_mongo_client_configuration [of "''mongodb://db.example:27017''" world_ok] c
  have "calls (snd (get_mongo_client ''mongodb://db.example:27017'' world_ok)) =
          calls world_ok @ [MongoClient_call \<lparr>uri = ''mongodb://db.example:27017'', tls = True,
                              tlsCAFile = certifi_where world_ok,
                              serverSelectionTimeoutMS = 15000\<rparr>]"
    and "uri client = ''mongodb://db.example:27017''" and "tls client"
    and "tlsCAFile client = certifi_where world_ok"
    and "serverSelectionTimeoutMS client = 15000"
    by simp_all
  then show ?thesis using c by (simp add: world_ok_def)
qed

section \<open>Construction\<close>

text \<open>
  C3. When \<open>MONGO_DB_URL\<close> is not set, or is set to an empty or whitespace-only
  string, constructing \<open>NetworkDataExtract\<close> raises the script's exception for the
  missing variable and leaves the world as it was (no driver call, no other effect);
  when it is set to anything else, construction succeeds and the object holds that
  value as \<open>mongo_uri\<close>.
\<close>

theorem init_requires_connection_string:
  "(environ w ''MONGO_DB_URL'' = None \<or>
    (\<exists>v. environ w ''MONGO_DB_URL'' = Some v \<and> list_all isspace v) \<longrightarrow>
      NetworkDataExtract_init w =
        (Inl (NetworkSecurityException (Caught (NetworkSecurityException
           (Text ''Missing required environment variable: MONGO_DB_URL'')))), w))
   \<and> (\<forall>v. environ w ''MONGO_DB_URL'' = Some v \<and> \<not> list_all isspace v \<longrightarrow>
         NetworkDataExtract_init w = (Inr \<lparr>mongo_uri = v\<rparr>, w))"
  by (auto simp: NetworkDataExtract_init_def require_env_result action_defs split: option.splits)

theorem init_requires_connection_string_witness:
  "NetworkDataExtract_init (world_ok\<lparr>environ := (\<lambda>_. None)\<rparr>) =
     (Inl (NetworkSecurityException (Caught (NetworkSecurityException
        (Text ''Missing required environment variable: MONGO_DB_URL'')))),
      world_ok\<lparr>environ := (\<lambda>_. None)\<rparr>)
   \<and> NetworkDataExtract_init (world_ok\<lparr>environ := (\<lambda>_. Some [CHR '' '', CHR 0x09])\<rparr>) =
     (Inl (NetworkSecurityException (Caught (NetworkSecurityException
        (Text ''Missing required environment variable: MONGO_DB_URL'')))),
      world_ok\<lparr>environ := (\<lambda>_. Some [CHR '' '', CHR 0x09])\<rparr>)
   \<and> NetworkDataExtract_init world_ok =
        (Inr \<lparr>mongo_uri = ''mongodb+srv://u:p@c0.example.net''\<rparr>, world_ok)
   \<and> calls (snd (NetworkDataExtract_init world_ok)) = []"
proof -
  have none: "environ (world_ok\<lparr>environ := (\<lambda>_. None)\<rparr>) ''MONGO_DB_URL'' = None"
    by simp
  have blank: "environ (world_ok\<lparr>environ := (\<lambda>_. Some [CHR '' '', CHR 0x09])\<rparr>) ''MONGO_DB_URL''
                 = Some [CHR '' '', CHR 0x09] \<and> list_all isspace [CHR '' '', CHR 0x09]"
    by (simp add: isspace_def)
  have present: "environ world_ok ''MONGO_DB_URL'' = Some ''mongodb+srv://u:p@c0.example.net''
                 \<and> \<not> list_all isspace ''mongodb+srv://u:p@c0.example.net''"
    by (simp add: world_ok_def isspace_def)
  have c: "calls world_ok = []" by (simp add: world_ok_def)
  from init_requires_connection_string [of "world_ok\<lparr>environ := (\<lambda>_. None)\<rparr>"] none
       init_requires_connection_string [of "world_ok\<lparr>environ := (\<lambda>_. Some [CHR '' '', CHR 0x09])\<rparr>"] blank
       init_requires_connection_string [of world_ok] present c
  show ?thesis by auto
qed

section \<open>Loading the CSV file\<close>

text \<open>
  C4. When \<open>read_csv\<close> parses the file, the loader returns records none of whose
  values is the marker \<open>NaN\<close>; and where the cell of row \<open>i\<close> under column \<open>j\<close> of a
  well-formed frame is missing, record \<open>i\<close> holds \<open>None\<close> under that column's name
  (so neither the marker nor the string "NaN").
\<close>

theorem loader_replaces_missing_cells:
  assumes "read_csv w file_path = Inr df"
  shows "\<exists>records. csv_to_json_convertor self file_path w = (Inr records, w)
           \<and> (\<forall>d\<in>set records. \<forall>v\<in>snd ` set d. v \<noteq> NaN)
           \<and> (well_formed df \<longrightarrow>
                (\<forall>i<length (rows df). \<forall>j<length (columns df).
                   rows df ! i ! j = NaN \<longrightarrow>
                   map_of (records ! i) (columns df ! j) = Some PyNone))"
proof (intro exI conjI)
  show "csv_to_json_convertor self file_path w =
          (Inr (to_dict_records (DataFrame_replace NaN PyNone df)), w)"
    using assms by (simp add: csv_to_json_convertor_result)
  show "\<forall>d\<in>set (to_dict_records (DataFrame_replace NaN PyNone df)). \<forall>v\<in>snd ` set d. v \<noteq> NaN"
    unfolding to_dict_records_replace using record_values_not_NaN by auto
  show "well_formed df \<longrightarrow>
          (\<forall>i<length (rows df). \<forall>j<length (columns df).
             rows df ! i ! j = NaN \<longrightarrow>
             map_of (to_dict_records (DataFrame_replace NaN PyNone df) ! i) (columns df ! j)
               = Some PyNone)"
  proof (intro impI allI)
    fix i j
    assume wf: "well_formed df" and i: "i < length (rows df)" and j: "j < length (columns df)"
      and missing: "rows df ! i ! j = NaN"
    from wf i have len: "length (rows df ! i) = length (columns df)"
      by (simp add: well_formed_def list_all_length)
    from wf have dist: "distinct (columns df)" by (simp add: well_formed_def)
    have "to_dict_records (DataFrame_replace NaN PyNone df) ! i =
            zip (columns df) (map (replace_cell NaN PyNone) (rows df ! i))"
      using i well_formed_record [OF wf i] by (simp add: to_dict_records_replace)
    moreover have "map_of (zip (columns df) (map (replace_cell NaN PyNone) (rows df ! i)))
                     (columns df ! j) = Some (map (replace_cell NaN PyNone) (rows df ! i) ! j)"
      using len dist j by (intro map_of_zip_nth) simp_all
    ultimately show "map_of (to_dict_records (DataFrame_replace NaN PyNone df) ! i)
                       (columns df ! j) = Some PyNone"
      using missing len j by (simp add: replace_cell_def)
  qed
qed

theorem loader_replaces_missing_cells_witness:
  "read_csv world_ok FILE_PATH = Inr frame3
   \<and> (\<exists>records. csv_to_json_convertor extractor_ok FILE_PATH world_ok = (Inr records, world_ok)
         \<and> list_all (\<lambda>d. NaN \<notin> snd ` set d) records
         \<and> map_of (records ! 1) ''Result'' = Some PyNone
         \<and> map_of (records ! 2) ''url'' = Some PyNone)"
proof -
  from loader_replaces_missing_cells [OF world_ok_read_csv, of extractor_ok]
  obtain records where
    res: "csv_to_json_convertor extractor_ok FILE_PATH world_ok = (Inr records, world_ok)" and
    no_nan: "\<forall>d\<in>set records. \<forall>v\<in>snd ` set d. v \<noteq> NaN" and
    cells: "well_formed frame3 \<longrightarrow>
              (\<forall>i<length (rows frame3). \<forall>j<length (columns frame3).
                 rows frame3 ! i ! j = NaN \<longrightarrow>
                 map_of (records ! i) (columns frame3 ! j) = Some PyNone)"
    by blast
  from cells frame3_well_formed
  have at: "\<And>i j. i < length (rows frame3) \<Longrightarrow> j < length (columns frame3) \<Longrightarrow>
              rows frame3 ! i ! j = NaN \<Longrightarrow>
              map_of (records ! i) (columns frame3 ! j) = Some PyNone"
    by blast
  have "map_of (records ! 1) ''Result'' = Some PyNone"
    using at [of 1 1] by (simp add: frame3_def)
  moreover have "map_of (records ! 2) ''url'' = Some PyNone"
    using at [of 2 0] by (simp add: frame3_def)
  moreover have "list_all (\<lambda>d. NaN \<notin> snd ` set d) records"
    using no_nan by (force simp: list_all_iff)
  ultimately show ?thesis using res world_ok_read_csv by (auto intro!: exI [of _ records])
qed

text \<open>
  C5. When \<open>read_csv\<close> parses the file into a frame of \<open>N\<close> rows, the loader returns
  exactly \<open>N\<close> records; for a well-formed frame, record \<open>i\<close> comes from row \<open>i\<close>: its
  keys are the column names, in the order of the header, and its values are the cells
  of that row with the missing ones replaced.
\<close>

theorem loader_keeps_rows:
  assumes "read_csv w file_path = Inr df"
  shows "\<exists>records. csv_to_json_convertor self file_path w = (Inr records, w)
           \<and> length records = length (rows df)
           \<and> (well_formed df \<longrightarrow>
                (\<forall>i<length (rows df).
                   map fst (records ! i) = columns df
                   \<and> map snd (records ! i) = map (replace_cell NaN PyNone) (rows df ! i)))"
proof (intro exI conjI)
  show "csv_to_json_convertor self file_path w =
          (Inr (to_dict_records (DataFrame_replace NaN PyNone df)), w)"
    using assms by (simp add: csv_to_json_convertor_result)
  show "length (to_dict_records (DataFrame_replace NaN PyNone df)) = length (rows df)"
    by (simp add: to_dict_records_replace)
  show "well_formed df \<longrightarrow>
          (\<forall>i<length (rows df).
             map fst (to_dict_records (DataFrame_replace NaN PyNone df) ! i) = columns df
             \<and> map snd (to_dict_records (DataFrame_replace NaN PyNone df) ! i)
                 = map (replace_cell NaN PyNone) (rows df ! i))"
  proof (intro impI allI)
    fix i
    assume wf: "well_formed df" and i: "i < length (rows df)"
    from wf i have len: "length (rows df ! i) = length (columns df)"
      by (simp add: well_formed_def list_all_length)
    have "to_dict_records (DataFrame_replace NaN PyNone df) ! i =
            zip (columns df) (map (replace_cell NaN PyNone) (rows df ! i))"
      using i well_formed_record [OF wf i] by (simp add: to_dict_records_replace)
    then show "map fst (to_dict_records (DataFrame_replace NaN PyNone df) ! i) = columns df
               \<and> map snd (to_dict_records (DataFrame_replace NaN PyNone df) ! i)
                   = map (replace_cell NaN PyNone) (rows df ! i)"
      using len by simp
  qed
qed

theorem loader_keeps_rows_witness:
  "read_csv world_ok FILE_PATH = Inr frame3
   \<and> (\<exists>records. csv_to_json_convertor extractor_ok FILE_PATH world_ok = (Inr records, world_ok)
         \<and> length records = 3
         \<and> map fst (records ! 0) = [''url'', ''Result'']
         \<and> map snd (records ! 0) = [PyStr ''a.example'', PyNum 1]
         \<and> map snd (records ! 1) = [PyStr ''b.example'', PyNone]
         \<and> map snd (records ! 2) = [PyNone, PyNum 0])"
proof -
  from loader_keeps_rows [OF world_ok_read_csv, of extractor_ok]
  obtain records where
    res: "csv_to_json_convertor extractor_ok FILE_PATH world_ok = (Inr records, world_ok)" and
    len: "length records = length (rows frame3)" and
    each: "well_formed frame3 \<longrightarrow>
             (\<forall>i<length (rows frame3).
                map fst (records ! i) = columns frame3
                \<and> map snd (records ! i) = map (replace_cell NaN PyNone) (rows frame3 ! i))"
    by blast
  from each frame3_well_formed
  have at: "\<And>i. i < length (rows frame3) \<Longrightarrow>
              map fst (records ! i) = columns frame3
              \<and> map snd (records ! i) = map (replace_cell NaN PyNone) (rows frame3 ! i)"
    by blast
  have n: "length records = 3" using len by (simp add: frame3_def)
  have r0: "map fst (records ! 0) = [''url'', ''Result'']"
    and v0: "map snd (records ! 0) = [PyStr ''a.example'', PyNum 1]"
    using at [of 0] by (simp_all add: frame3_def replace_cell_def)
  have v1: "map snd (records ! 1) = [PyStr ''b.example'', PyNone]"
    using at [of 1] by (simp add: frame3_def replace_cell_def)
  have v2: "map snd (records ! 2) = [PyNone, PyNum 0]"
    using at [of 2] by (simp add: frame3_def replace_cell_def)
  show ?thesis using res world_ok_read_csv n r0 v0 v1 v2
    by (auto intro!: exI [of _ records])
qed

section \<open>Inserting the records\<close>

text \<open>
  C6. Whenever \<open>insert_data_mongodb\<close> returns, the count it returns is a non-negative
  integer, at most the number of submitted records, and equal to that number when the
  store accepts all of them. And it does return that number when the client is created,
  the ping succeeds, the driver takes the database and collection names, the bulk write
  does not fail as a whole, the list is not empty and the store accepts every document.
\<close>

theorem insert_count:
  "(\<forall>n. fst (insert_data_mongodb self records database collection w) = Inr n \<longrightarrow>
        0 \<le> n \<and> n \<le> int (length records)
        \<and> (accepts_all w database collection records \<longrightarrow> n = int (length records)))
   \<and> (MongoClient_raises w (mongo_args self w) = None
      \<and> command_raises w ''ping'' = None
      \<and> database_raises w database = None
      \<and> collection_raises w database collection = None
      \<and> insert_raises w = None
      \<and> records \<noteq> []
      \<and> accepts_all w database collection records \<longrightarrow>
      fst (insert_data_mongodb self records database collection w) = Inr (int (length records)))"
proof (rule conjI)
  show "\<forall>n. fst (insert_data_mongodb self records database collection w) = Inr n \<longrightarrow>
          0 \<le> n \<and> n \<le> int (length records)
          \<and> (accepts_all w database collection records \<longrightarrow> n = int (length records))"
  proof (rule allI, rule impI)
    fix n
    assume "fst (insert_data_mongodb self records database collection w) = Inr n"
    from insert_data_mongodb_returns [OF this]
    show "0 \<le> n \<and> n \<le> int (length records)
          \<and> (accepts_all w database collection records \<longrightarrow> n = int (length records))"
      by simp
  qed
next
  show "MongoClient_raises w (mongo_args self w) = None
      \<and> command_raises w ''ping'' = None
      \<and> database_raises w database = None
      \<and> collection_raises w database collection = None
      \<and> insert_raises w = None
      \<and> records \<noteq> []
      \<and> accepts_all w database collection records \<longrightarrow>
      fst (insert_data_mongodb self records database collection w) = Inr (int (length records))"
    by (auto simp: insert_data_mongodb_steps insert_many_def accepts_all_def Let_def
        split: prod.splits)
qed

theorem insert_count_witness:
  "fst (insert_data_mongodb extractor_ok records3 DATABASE COLLECTION world_ok) = Inr 3
   \<and> accepts_all world_ok DATABASE COLLECTION records3
   \<and> records3 \<noteq> []
   \<and> (0::int) \<le> 3 \<and> (3::int) \<le> int (length records3) \<and> (3::int) = int (length records3)"
proof -
  have ne: "records3 \<noteq> []" by (simp add: records3_def)
  from insert_count [of extractor_ok records3 DATABASE COLLECTION world_ok]
    world_ok_driver world_ok_accepts3 ne
  have ret: "fst (insert_data_mongodb extractor_ok records3 DATABASE COLLECTION world_ok)
               = Inr (int (length records3))"
    by blast
  from insert_count [of extractor_ok records3 DATABASE COLLECTION world_ok] ret
  have "0 \<le> int (length records3) \<and> int (length records3) \<le> int (length records3)"
    by blast
  then show ?thesis
    using ret world_ok_accepts3 ne by (simp add: records3_def)
qed

text \<open>
  C1. The claim says that \<open>insert_data_mongodb\<close> returns the number of persisted
  documents when the store rejects some of them, 1 for two records the second of which
  is a duplicate. Evaluated on that input, the \<open>except BulkWriteError\<close> clause logs the
  details and raises the script's exception around the \<open>BulkWriteError\<close>: no count is
  returned, although the first document is in the collection.
\<close>

theorem duplicate_rejection_raises:
  "fst (insert_data_mongodb extractor_ok records_dup DATABASE COLLECTION world_ok) =
     Inl (NetworkSecurityException (Caught (BulkWriteError
            \<lparr>writeErrors = [\<lparr>index = 1, code = 11000\<rparr>], nInserted = 1\<rparr>)))
   \<and> collections (snd (insert_data_mongodb extractor_ok records_dup DATABASE COLLECTION world_ok))
        (DATABASE, COLLECTION) = [[(''url'', PyStr ''a.example''), (''Result'', PyNum 1)]]
   \<and> error_log (snd (insert_data_mongodb extractor_ok records_dup DATABASE COLLECTION world_ok))
        = [\<lparr>writeErrors = [\<lparr>index = 1, code = 11000\<rparr>], nInserted = 1\<rparr>]"
  by code_simp

text \<open>
  C2, as the claim states it: a ping that fails makes \<open>insert_data_mongodb\<close> raise the
  connectivity failure. It does not when the ping fails with anything but
  \<open>ServerSelectionTimeoutError\<close>: refused credentials reach the last \<open>except\<close> clause
  and are wrapped without the diagnostic.
\<close>

theorem ping_failure_not_connectivity:
  "MongoClient_raises world_bad_auth (mongo_args extractor_ok world_bad_auth) = None
   \<and> command_raises world_bad_auth ''ping'' =
       Some (OtherException ''OperationFailure'' ''bad auth : authentication failed'')
   \<and> fst (insert_data_mongodb extractor_ok records3 DATABASE COLLECTION world_bad_auth) =
       Inl (NetworkSecurityException (Caught
              (OtherException ''OperationFailure'' ''bad auth : authentication failed'')))
   \<and> \<not> connectivity_failure
          (fst (insert_data_mongodb extractor_ok records3 DATABASE COLLECTION world_bad_auth))"
  by code_simp

text \<open>
  C2, amended. When the client is created and the ping raises \<open>e\<close>,
  \<open>insert_data_mongodb\<close> raises the script's exception; the only driver calls are the
  construction of the client and the ping (\<open>insert_many\<close> is never called) and every
  collection is as it was. The exception is the connectivity failure when \<open>e\<close> is a
  \<open>ServerSelectionTimeoutError\<close>, and the plain wrapping of \<open>e\<close> when it is not.
\<close>

theorem ping_failure_aborts:
  assumes "MongoClient_raises w (mongo_args self w) = None"
    and "command_raises w ''ping'' = Some e"
  shows "(\<exists>m. fst (insert_data_mongodb self records database collection w) =
               Inl (NetworkSecurityException m))
         \<and> calls (snd (insert_data_mongodb self records database collection w)) =
             calls w @ [MongoClient_call (mongo_args self w), Command_call ''admin'' ''ping'']
         \<and> collections (snd (insert_data_mongodb self records database collection w)) =
             collections w
         \<and> (\<forall>s. e = ServerSelectionTimeoutError s \<longrightarrow>
               connectivity_failure (fst (insert_data_mongodb self records database collection w)))
         \<and> ((\<forall>s. e \<noteq> ServerSelectionTimeoutError s) \<longrightarrow>
               fst (insert_data_mongodb self records database collection w) =
                 Inl (NetworkSecurityException (Caught e)))"
proof -
  let ?w2 = "w\<lparr>calls := calls w @ [MongoClient_call (mongo_args self w),
                                     Command_call ''admin'' ''ping'']\<rparr>"
  have run: "insert_data_mongodb self records database collection w =
               insert_data_mongodb_except e ?w2"
    using assms by (simp add: insert_data_mongodb_steps Let_def)
  show ?thesis
    unfolding run
    using insert_data_mongodb_except_raises [of e ?w2] insert_data_mongodb_except_frame [of e ?w2]
      timeout_is_connectivity_failure [of _ ?w2] insert_data_mongodb_except_other [of e ?w2]
    by auto
qed

theorem ping_failure_aborts_witness:
  "MongoClient_raises world_unreachable (mongo_args extractor_ok world_unreachable) = None
   \<and> command_raises world_unreachable ''ping'' =
       Some (ServerSelectionTimeoutError ''c0.example.net:27017: timed out'')
   \<and> connectivity_failure
       (fst (insert_data_mongodb extractor_ok records3 DATABASE COLLECTION world_unreachable))
   \<and> calls (snd (insert_data_mongodb extractor_ok records3 DATABASE COLLECTION world_unreachable)) =
       [MongoClient_call \<lparr>uri = ''mongodb+srv://u:p@c0.example.net'', tls = True,
                           tlsCAFile = ''/certifi/cacert.pem'', serverSelectionTimeoutMS = 15000\<rparr>,
        Command_call ''admin'' ''ping'']
   \<and> collections (snd (insert_data_mongodb extractor_ok records3 DATABASE COLLECTION
                          world_unreachable)) (DATABASE, COLLECTION) = []"
proof -
  note r = ping_failure_aborts [OF world_unreachable_client world_unreachable_ping,
      of records3 DATABASE COLLECTION]
  from r have "connectivity_failure
       (fst (insert_data_mongodb extractor_ok records3 DATABASE COLLECTION world_unreachable))"
    by blast
  moreover from r have
    "calls (snd (insert_data_mongodb extractor_ok records3 DATABASE COLLECTION world_unreachable)) =
       [MongoClient_call \<lparr>uri = ''mongodb+srv://u:p@c0.example.net'', tls = True,
                           tlsCAFile = ''/certifi/cacert.pem'', serverSelectionTimeoutMS = 15000\<rparr>,
        Command_call ''admin'' ''ping'']"
    by (simp add: mongo_args_def world_unreachable_def world_ok_def extractor_ok_def)
  moreover from r have
    "collections (snd (insert_data_mongodb extractor_ok records3 DATABASE COLLECTION
                          world_unreachable)) (DATABASE, COLLECTION) = []"
    by (simp add: world_unreachable_def world_ok_def)
  ultimately show ?thesis
    using world_unreachable_client world_unreachable_ping by simp
qed

text \<open>
  C7. When the construction of the client, the ping or the bulk write raises
  \<open>ServerSelectionTimeoutError\<close>, \<open>insert_data_mongodb\<close> raises the script's exception
  whose message is "Cannot connect to MongoDB: ", the text of the original error, and
  the hint naming the IP allowlist, the \<open>mongodb+srv\<close> URI, SSL inspection by a proxy
  and the system certificates; it returns no count.
\<close>

theorem server_selection_timeout_diagnostic:
  assumes "MongoClient_raises w (mongo_args self w) = Some (ServerSelectionTimeoutError s)
           \<or> (MongoClient_raises w (mongo_args self w) = None
              \<and> command_raises w ''ping'' = Some (ServerSelectionTimeoutError s))
           \<or> (MongoClient_raises w (mongo_args self w) = None
              \<and> command_raises w ''ping'' = None
              \<and> database_raises w database = None
              \<and> collection_raises w database collection = None
              \<and> records \<noteq> []
              \<and> insert_raises w = Some (ServerSelectionTimeoutError s))"
  shows "fst (insert_data_mongodb self records database collection w) =
           Inl (NetworkSecurityException (Text
             (''Cannot connect to MongoDB: '' @ s @
              ''. Check: (1) IP allowlist in Atlas, (2) URI uses mongodb+srv, '' @
              ''(3) network/proxy SSL inspection, (4) system certs.'')))
         \<and> (\<forall>n. fst (insert_data_mongodb self records database collection w) \<noteq> Inr n)"
  using assms
  by (auto simp: insert_data_mongodb_steps insert_many_def Let_def raise_action_def)

theorem server_selection_timeout_diagnostic_witness:
  "MongoClient_raises world_unreachable (mongo_args extractor_ok world_unreachable) = None
   \<and> command_raises world_unreachable ''ping'' =
       Some (ServerSelectionTimeoutError ''c0.example.net:27017: timed out'')
   \<and> fst (insert_data_mongodb extractor_ok records3 DATABASE COLLECTION world_unreachable) =
       Inl (NetworkSecurityException (Text
         (''Cannot connect to MongoDB: c0.example.net:27017: timed out'' @
          ''. Check: (1) IP allowlist in Atlas, (2) URI uses mongodb+srv, '' @
          ''(3) network/proxy SSL inspection, (4) system certs.'')))"
proof -
  have "MongoClient_raises world_unreachable (mongo_args extractor_ok world_unreachable) = None
        \<and> command_raises world_unreachable ''ping'' =
            Some (ServerSelectionTimeoutError ''c0.example.net:27017: timed out'')"
    using world_unreachable_client world_unreachable_ping by simp
  then have "fst (insert_data_mongodb extractor_ok records3 DATABASE COLLECTION world_unreachable) =
       Inl (NetworkSecurityException (Text
         (''Cannot connect to MongoDB: '' @ ''c0.example.net:27017: timed out'' @
          ''. Check: (1) IP allowlist in Atlas, (2) URI uses mongodb+srv, '' @
          ''(3) network/proxy SSL inspection, (4) system certs.'')))"
    using server_selection_timeout_diagnostic
      [of world_unreachable extractor_ok "''c0.example.net:27017: timed out''" DATABASE
          COLLECTION records3]
    by blast
  then show ?thesis using world_unreachable_client world_unreachable_ping by simp
qed

text \<open>
  C10. With an empty list of records \<open>insert_data_mongodb\<close> never returns a count (so
  not 0). When the client is created, the ping succeeds and the driver takes the names,
  \<open>insert_many\<close> is called, refuses the empty list with \<open>TypeError\<close> before sending
  anything, and the last \<open>except\<close> clause wraps that error: the world differs from the
  one before only by the three driver calls.
\<close>

theorem insert_empty_raises:
  "(\<forall>n. fst (insert_data_mongodb self [] database collection w) \<noteq> Inr n)
   \<and> (MongoClient_raises w (mongo_args self w) = None
      \<and> command_raises w ''ping'' = None
      \<and> database_raises w database = None
      \<and> collection_raises w database collection = None \<longrightarrow>
      insert_data_mongodb self [] database collection w =
        (Inl (NetworkSecurityException (Caught (TypeError ''documents must be a non-empty list''))),
         w\<lparr>calls := calls w @
              [MongoClient_call (mongo_args self w),
               Command_call ''admin'' ''ping'',
               Insert_many_call database collection [] False]\<rparr>))"
proof (rule conjI)
  show "\<forall>n. fst (insert_data_mongodb self [] database collection w) \<noteq> Inr n"
    using insert_data_mongodb_returns [of self "[]" database collection w] by blast
next
  show "MongoClient_raises w (mongo_args self w) = None
      \<and> command_raises w ''ping'' = None
      \<and> database_raises w database = None
      \<and> collection_raises w database collection = None \<longrightarrow>
      insert_data_mongodb self [] database collection w =
        (Inl (NetworkSecurityException (Caught (TypeError ''documents must be a non-empty list''))),
         w\<lparr>calls := calls w @
              [MongoClient_call (mongo_args self w),
               Command_call ''admin'' ''ping'',
               Insert_many_call database collection [] False]\<rparr>)"
    by (simp add: insert_data_mongodb_steps insert_many_def Let_def raise_action_def)
qed

theorem insert_empty_raises_witness:
  "MongoClient_raises world_ok (mongo_args extractor_ok world_ok) = None
   \<and> command_raises world_ok ''ping'' = None
   \<and> database_raises world_ok DATABASE = None
   \<and> collection_raises world_ok DATABASE COLLECTION = None
   \<and> fst (insert_data_mongodb extractor_ok [] DATABASE COLLECTION world_ok) =
       Inl (NetworkSecurityException (Caught (TypeError ''documents must be a non-empty list'')))
   \<and> fst (insert_data_mongodb extractor_ok [] DATABASE COLLECTION world_ok) \<noteq> Inr 0
   \<and> calls (snd (insert_data_mongodb extractor_ok [] DATABASE COLLECTION world_ok)) =
       [MongoClient_call \<lparr>uri = ''mongodb+srv://u:p@c0.example.net'', tls = True,
                           tlsCAFile = ''/certifi/cacert.pem'', serverSelectionTimeoutMS = 15000\<rparr>,
        Command_call ''admin'' ''ping'',
        Insert_many_call ''CHARUKAGUN'' ''NetworkData'' [] False]
   \<and> collections (snd (insert_data_mongodb extractor_ok [] DATABASE COLLECTION world_ok))
        (DATABASE, COLLECTION) = []"
proof -
  from insert_empty_raises [of extractor_ok DATABASE COLLECTION world_ok] world_ok_driver
  have run: "insert_data_mongodb extractor_ok [] DATABASE COLLECTION world_ok =
        (Inl (NetworkSecurityException (Caught (TypeError ''documents must be a non-empty list''))),
         world_ok\<lparr>calls := calls world_ok @
              [MongoClient_call (mongo_args extractor_ok world_ok),
               Command_call ''admin'' ''ping'',
               Insert_many_call DATABASE COLLECTION [] False]\<rparr>)"
    by blast
  have "fst (insert_data_mongodb extractor_ok [] DATABASE COLLECTION world_ok) =
          Inl (NetworkSecurityException (Caught (TypeError ''documents must be a non-empty list'')))"
    by (simp add: run)
  moreover have
    "calls (snd (insert_data_mongodb extractor_ok [] DATABASE COLLECTION world_ok)) =
       [MongoClient_call \<lparr>uri = ''mongodb+srv://u:p@c0.example.net'', tls = True,
                           tlsCAFile = ''/certifi/cacert.pem'', serverSelectionTimeoutMS = 15000\<rparr>,
        Command_call ''admin'' ''ping'',
        Insert_many_call ''CHARUKAGUN'' ''NetworkData'' [] False]"
    unfolding run
    by (simp add: mongo_args_def world_ok_def extractor_ok_def DATABASE_def COLLECTION_def)
  moreover have
    "collections (snd (insert_data_mongodb extractor_ok [] DATABASE COLLECTION world_ok))
        (DATABASE, COLLECTION) = []"
    unfolding run by (simp add: world_ok_def)
  ultimately show ?thesis
    using world_ok_driver by simp
qed

section \<open>The entry point\<close>

text \<open>
  C9. The entry point, by the first step that fails: when construction, loading or
  insertion raises \<open>e\<close>, \<open>main\<close> prints \<open>e\<close> and raises \<open>e\<close> itself (after the line
  with the number of loaded records, when it is the insertion that failed); when all
  three succeed it prints the number of records loaded, then the number inserted, and
  returns.
\<close>

theorem main_prints_and_reraises:
  "(\<forall>e. fst (NetworkDataExtract_init w) = Inl e \<longrightarrow>
      fst (main w) = Inl e \<and> stdout (snd (main w)) = stdout w @ [Str_of e])
   \<and> (\<forall>extractor e.
        fst (NetworkDataExtract_init w) = Inr extractor \<and>
        fst (csv_to_json_convertor extractor FILE_PATH w) = Inl e \<longrightarrow>
        fst (main w) = Inl e \<and> stdout (snd (main w)) = stdout w @ [Str_of e])
   \<and> (\<forall>extractor records e.
        fst (NetworkDataExtract_init w) = Inr extractor \<and>
        fst (csv_to_json_convertor extractor FILE_PATH w) = Inr records \<and>
        fst (insert_data_mongodb extractor records DATABASE COLLECTION w) = Inl e \<longrightarrow>
        fst (main w) = Inl e \<and>
        stdout (snd (main w)) =
          stdout w @ [Line (''Loaded '' @ str_int (int (length records)) @ '' records from CSV''),
                      Str_of e])
   \<and> (\<forall>extractor records n.
        fst (NetworkDataExtract_init w) = Inr extractor \<and>
        fst (csv_to_json_convertor extractor FILE_PATH w) = Inr records \<and>
        fst (insert_data_mongodb extractor records DATABASE COLLECTION w) = Inr n \<longrightarrow>
        fst (main w) = Inr () \<and>
        stdout (snd (main w)) =
          stdout w @ [Line (''Loaded '' @ str_int (int (length records)) @ '' records from CSV''),
                      Line (''Inserted '' @ str_int n @ '' records'')])"
proof -
  obtain r where init: "NetworkDataExtract_init w = (r, w)"
    using NetworkDataExtract_init_world [of w] by (cases "NetworkDataExtract_init w") simp
  have csv: "\<And>x. \<exists>c. csv_to_json_convertor x FILE_PATH w = (c, w)"
    using csv_to_json_convertor_world by (metis prod.collapse)
  show ?thesis
  proof (cases r)
    case (Inl e)
    then show ?thesis
      by (simp add: main_def action_defs init py_print_exn_def)
  next
    case (Inr extractor)
    obtain c where c: "csv_to_json_convertor extractor FILE_PATH w = (c, w)"
      using csv by blast
    show ?thesis
    proof (cases c)
      case (Inl e)
      then show ?thesis
        using Inr by (simp add: main_def action_defs init c py_print_exn_def)
    next
      case recs: (Inr records)
      obtain i w' where i: "insert_data_mongodb extractor records DATABASE COLLECTION w = (i, w')"
        by (cases "insert_data_mongodb extractor records DATABASE COLLECTION w")
      have out: "stdout w' = stdout w"
        using insert_data_mongodb_keeps_stdout [of extractor records DATABASE COLLECTION w] i
        by simp
      have run: "\<And>out. insert_data_mongodb extractor records DATABASE COLLECTION
                   (w\<lparr>stdout := out\<rparr>) = (i, w'\<lparr>stdout := out\<rparr>)"
        by (simp add: insert_data_mongodb_stdout i)
      show ?thesis
        using Inr recs
        by (cases i)
           (simp_all add: main_def action_defs init c i run out py_print_def py_print_exn_def)
    qed
  qed
qed

theorem main_prints_and_reraises_witness:
  "fst (main world_ok) = Inr ()
   \<and> stdout (snd (main world_ok)) =
       [Line ''Loaded 3 records from CSV'', Line ''Inserted 3 records'']
   \<and> fst (main world_unreachable) =
       Inl (NetworkSecurityException (Text
         (''Cannot connect to MongoDB: c0.example.net:27017: timed out'' @
          ''. Check: (1) IP allowlist in Atlas, (2) URI uses mongodb+srv, '' @
          ''(3) network/proxy SSL inspection, (4) system certs.'')))
   \<and> stdout (snd (main world_unreachable)) =
       [Line ''Loaded 3 records from CSV'',
        Str_of (NetworkSecurityException (Text
          (''Cannot connect to MongoDB: c0.example.net:27017: timed out'' @
           ''. Check: (1) IP allowlist in Atlas, (2) URI uses mongodb+srv, '' @
           ''(3) network/proxy SSL inspection, (4) system certs.'')))]
   \<and> fst (main world_no_env) =
       Inl (NetworkSecurityException (Caught (NetworkSecurityException
         (Text ''Missing required environment variable: MONGO_DB_URL''))))
   \<and> stdout (snd (main world_no_env)) =
       [Str_of (NetworkSecurityException (Caught (NetworkSecurityException
          (Text ''Missing required environment variable: MONGO_DB_URL''))))]"
proof -
  from main_prints_and_reraises [of world_ok] world_ok_init world_ok_load world_ok_insert3
  have ok: "fst (main world_ok) = Inr () \<and>
        stdout (snd (main world_ok)) =
          stdout world_ok @
            [Line (''Loaded '' @ str_int (int (length records3)) @ '' records from CSV''),
             Line (''Inserted '' @ str_int 3 @ '' records'')]"
    by blast
  from main_prints_and_reraises [of world_unreachable]
    world_unreachable_init world_unreachable_load world_unreachable_insert
  have down: "fst (main world_unreachable) =
        Inl (NetworkSecurityException (Text
         (''Cannot connect to MongoDB: c0.example.net:27017: timed out'' @
          ''. Check: (1) IP allowlist in Atlas, (2) URI uses mongodb+srv, '' @
          ''(3) network/proxy SSL inspection, (4) system certs.''))) \<and>
        stdout (snd (main world_unreachable)) =
          stdout world_unreachable @
            [Line (''Loaded '' @ str_int (int (length records3)) @ '' records from CSV''),
             Str_of (NetworkSecurityException (Text
               (''Cannot connect to MongoDB: c0.example.net:27017: timed out'' @
                ''. Check: (1) IP allowlist in Atlas, (2) URI uses mongodb+srv, '' @
                ''(3) network/proxy SSL inspection, (4) system certs.'')))]"
    by blast
  from main_prints_and_reraises [of world_no_env] world_no_env_init
  have unset: "fst (main world_no_env) =
        Inl (NetworkSecurityException (Caught (NetworkSecurityException
          (Text ''Missing required environment variable: MONGO_DB_URL'')))) \<and>
        stdout (snd (main world_no_env)) =
          stdout world_no_env @
            [Str_of (NetworkSecurityException (Caught (NetworkSecurityException
               (Text ''Missing required environment variable: MONGO_DB_URL''))))]"
    by blast
  show ?thesis
    using ok down unset by (simp only: printed_lines)
qed

end
